theory Spec2Isabelle
  imports Main "HOL-Library.Word"
begin

section \<open>The FDX decoder of libfdx/yamldecode.py\<close>

text \<open>
  The module holds two field primitives (\<open>checklength\<close>, \<open>intdecoder\<close>) and the class
  \<open>FDXProcess\<close> with the frame synchronizer \<open>lineprotocol\<close> and the frame decoder
  \<open>decode_frame\<close>. Every exception the Python raises is a value of \<open>pyerror\<close>, and a
  function that can raise returns \<open>pyerror + 'a\<close>.
\<close>

subsection \<open>Exceptions and format arguments\<close>

text \<open>
  A message built with the \<open>%\<close> operator is kept as its template and its argument tuple.
  \<open>len(pdu)/2\<close> is an integer under Python 2 and the float of the same value under
  Python 3; \<open>N\<close> holds that value.
\<close>

datatype fmtarg = S string | N int

datatype pyerror =
    AssertionError
  | DataError string "fmtarg list"
  | NameError string
  | TypeError
  | IndexError
  | InterpretError
  | CreationError

type_synonym byte = "8 word"

type_synonym BitArray = "bool list"

subsection \<open>Hexadecimal text and bit arrays\<close>

definition hexval :: "char \<Rightarrow> nat option" where
  "hexval c =
     (let n = (of_char c :: nat) in
      if 48 \<le> n \<and> n \<le> 57 then Some (n - 48)
      else if 97 \<le> n \<and> n \<le> 102 then Some (n - 87)
      else if 65 \<le> n \<and> n \<le> 70 then Some (n - 55)
      else None)"

definition is_hexdigit :: "char \<Rightarrow> bool" where
  "is_hexdigit c = (hexval c \<noteq> None)"

definition hexstr :: "string \<Rightarrow> bool" where
  "hexstr s = list_all is_hexdigit s"

text \<open>The bits of a number, most significant first, on \<open>w\<close> bits.\<close>

definition bits_of_nat :: "nat \<Rightarrow> nat \<Rightarrow> bool list" where
  "bits_of_nat w n = map (\<lambda>i. odd (n div 2 ^ i)) (rev [0..<w])"

definition byte_bits :: "byte \<Rightarrow> bool list" where
  "byte_bits b = bits_of_nat 8 (unat b)"

fun hex_bits :: "string \<Rightarrow> bool list option" where
  "hex_bits [] = Some []"
| "hex_bits (c # cs) =
     (case hexval c of
        None \<Rightarrow> None
      | Some v \<Rightarrow> (case hex_bits cs of None \<Rightarrow> None | Some bs \<Rightarrow> Some (bits_of_nat 4 v @ bs)))"

text \<open>
  \<open>BitArray(hex=s)\<close> of the bitstring library: four bits for each hexadecimal digit. The
  model covers the strings of hexadecimal digits, which is what \<open>checklength\<close> documents
  its argument to be; any other string is reported as the library's CreationError.
\<close>

definition BitArray_hex :: "string \<Rightarrow> pyerror + BitArray" where
  "BitArray_hex s = (case hex_bits s of None \<Rightarrow> Inl CreationError | Some bs \<Rightarrow> Inr bs)"

text \<open>\<open>binascii.unhexlify\<close> on an even number of hexadecimal digits: one byte for two digits.\<close>

fun unhexlify :: "string \<Rightarrow> byte list option" where
  "unhexlify [] = Some []"
| "unhexlify [c] = None"
| "unhexlify (c # d # cs) =
     (case (hexval c, hexval d) of
        (Some h, Some l) \<Rightarrow>
          (case unhexlify cs of None \<Rightarrow> None | Some bs \<Rightarrow> Some (of_nat (16 * h + l) # bs))
      | _ \<Rightarrow> None)"

subsection \<open>checklength\<close>

text \<open>
  The slices are Python's: \<open>pdu[:6]\<close> is \<open>take 6 pdu\<close>, \<open>pdu[6:]\<close> is \<open>drop 6 pdu\<close> and
  \<open>pdu[6:-2]\<close> is \<open>drop 6 (take (length pdu - 2) pdu)\<close>, empty when the string has fewer
  than eight characters. The two type assertions hold by the types of the model.
\<close>

definition length_template :: string where
  "length_template = ''mtype=0x%s: Incorrect length %s (got %s) body: %s''"

definition checklength :: "string \<Rightarrow> int option \<Rightarrow> pyerror + BitArray" where
  "checklength pdu speclen =
     (if length pdu mod 2 \<noteq> 0 then Inl AssertionError
      else
        (case speclen of
           Some n \<Rightarrow>
             if int (length pdu div 2) \<noteq> n
             then Inl (DataError length_template
                        [S (take 6 pdu), N n, N (int (length pdu div 2)), S (drop 6 pdu)])
             else BitArray_hex (drop 6 (take (length pdu - 2) pdu))
         | None \<Rightarrow> BitArray_hex (drop 6 (take (length pdu - 2) pdu))))"

text \<open>Whether a result is a raised DataError.\<close>

fun is_DataError :: "pyerror + 'a \<Rightarrow> bool" where
  "is_DataError (Inl (DataError t args)) = True"
| "is_DataError r = False"

subsection \<open>intdecoder\<close>

text \<open>
  A bit array read as a number, most significant bit first (the library's \<open>uint\<close>).
\<close>

definition nat_of_bits :: "bool list \<Rightarrow> nat" where
  "nat_of_bits bs = foldl (\<lambda>a b. 2 * a + (if b then 1 else 0)) 0 bs"

text \<open>The whole bytes of a bit array, in order.\<close>

definition bytes_of_bits :: "bool list \<Rightarrow> nat list" where
  "bytes_of_bits bs = map (\<lambda>k. nat_of_bits (take 8 (drop (8 * k) bs))) [0..<length bs div 8]"

text \<open>
  The library's \<open>uintle\<close> and \<open>intle\<close>: the bytes of the bit array taken least
  significant first, unsigned or in two's complement on the array's length. Both raise
  InterpretError on an array that is not a whole number of bytes. \<open>intdecoder\<close> never
  reads an empty window; the model gives the empty array the same error.
\<close>

definition uintle_value :: "BitArray \<Rightarrow> int" where
  "uintle_value bs = int (foldr (\<lambda>b acc. b + 256 * acc) (bytes_of_bits bs) 0)"

definition intle_value :: "BitArray \<Rightarrow> int" where
  "intle_value bs =
     (let ui = uintle_value bs in
      if ui < 2 ^ (length bs - 1) then ui else ui - 2 ^ length bs)"

definition uintle :: "BitArray \<Rightarrow> pyerror + int" where
  "uintle bs =
     (if bs = [] \<or> length bs mod 8 \<noteq> 0 then Inl InterpretError
      else Inr (uintle_value bs))"

definition intle :: "BitArray \<Rightarrow> pyerror + int" where
  "intle bs =
     (if bs = [] \<or> length bs mod 8 \<noteq> 0 then Inl InterpretError
      else Inr (intle_value bs))"

text \<open>The library's \<open>hex\<close>: one lower-case digit for four bits, an error on other lengths.\<close>

definition hexchar :: "nat \<Rightarrow> char" where
  "hexchar n = ''0123456789abcdef'' ! (n mod 16)"

definition hex_digits :: "BitArray \<Rightarrow> string" where
  "hex_digits bs =
     map (\<lambda>k. hexchar (nat_of_bits (take 4 (drop (4 * k) bs)))) [0..<length bs div 4]"

definition BitArray_to_hex :: "BitArray \<Rightarrow> pyerror + string" where
  "BitArray_to_hex bs =
     (if length bs mod 4 \<noteq> 0 then Inl InterpretError else Inr (hex_digits bs))"

text \<open>\<open>"%03i" % v\<close> and \<open>"%05i" % v\<close>: decimal, padded with zeros to the width, sign included.\<close>

fun digits :: "nat \<Rightarrow> string" where
  "digits n = (if n < 10 then [hexchar n] else digits (n div 10) @ [hexchar (n mod 10)])"

declare digits.simps [simp del]

definition fmt_0i :: "nat \<Rightarrow> int \<Rightarrow> string" where
  "fmt_0i w v =
     (let sign = (if v < 0 then [CHR ''-''] else []); ds = digits (nat \<bar>v\<bar>)
      in sign @ replicate (w - length sign - length ds) (CHR ''0'') @ ds)"

fun join :: "string \<Rightarrow> string list \<Rightarrow> string" where
  "join sep [] = []"
| "join sep [x] = x"
| "join sep (x # y # ys) = x @ sep @ join sep (y # ys)"

text \<open>
  \<open>range(0, n, w)\<close> for a positive step, and the slices \<open>body[idx:idx+width]\<close> it selects:
  Python cuts a slice at the end of the array.
\<close>

definition py_range :: "nat \<Rightarrow> nat \<Rightarrow> nat list" where
  "py_range n w = map (\<lambda>k. k * w) [0..<(n + w - 1) div w]"

definition windows :: "nat \<Rightarrow> BitArray \<Rightarrow> BitArray list" where
  "windows w body = map (\<lambda>idx. take w (drop idx body)) (py_range (length body) w)"

text \<open>The loop body on each window in turn; the first window that raises ends the loop.\<close>

fun decode_windows :: "nat \<Rightarrow> bool \<Rightarrow> BitArray list \<Rightarrow> pyerror + string list" where
  "decode_windows fw sg [] = Inr []"
| "decode_windows fw sg (v # vs) =
     (case (if sg then intle v else uintle v) of
        Inl e \<Rightarrow> Inl e
      | Inr x \<Rightarrow>
          (case decode_windows fw sg vs of
             Inl e \<Rightarrow> Inl e
           | Inr s \<Rightarrow> Inr (fmt_0i fw x # s)))"

definition intdecoder :: "BitArray \<Rightarrow> int \<Rightarrow> bool \<Rightarrow> pyerror + (string \<times> string) list" where
  "intdecoder body width sg =
     (if width mod 8 \<noteq> 0 then Inl AssertionError
      else if width \<noteq> 8 \<and> width \<noteq> 16 then Inl AssertionError
      else
        (let fw = (if width = 16 then 5 else 3) in
         case decode_windows fw sg (windows (nat width) body) of
           Inl e \<Rightarrow> Inl e
         | Inr s \<Rightarrow>
             (case BitArray_to_hex body of
                Inl e \<Rightarrow> Inl e
              | Inr h \<Rightarrow> Inr [(''ints'', join [CHR '' ''] s), (''strbody'', h)])))"

subsection \<open>Free names of a method body\<close>

text \<open>
  Python resolves a free name of a function body in the function's locals, the enclosing
  functions, the module's globals and the builtins. The body of a class is not one of
  these scopes: a class attribute is reached as \<open>self.name\<close> or \<open>FDXProcess.name\<close> only.
  A name bound in no scope raises NameError.
\<close>

definition lookup :: "(string \<times> 'a) list \<Rightarrow> string \<Rightarrow> pyerror + 'a" where
  "lookup env x = (case map_of env x of None \<Rightarrow> Inl (NameError x) | Some v \<Rightarrow> Inr v)"

subsection \<open>The class FDXProcess\<close>

text \<open>The class attributes \<open>handlers\<close>, \<open>headerlen\<close> and \<open>headers\<close>.\<close>

definition FDXProcess_handlers :: "string \<rightharpoonup> 'h" where
  "FDXProcess_handlers = Map.empty"

definition FDXProcess_headerlen :: "(int \<times> int) list" where
  "FDXProcess_headerlen = [(0x010402, 6)]"

definition FDXProcess_headers :: "(int \<times> int) list" where
  "FDXProcess_headers = [(0x010402, 6), (0x010106, 10)]"

subsection \<open>decode_frame\<close>

text \<open>\<open>binascii.hexlify\<close> and \<open>bytes.hex\<close>: two lower-case digits for each byte.\<close>

definition hexlify :: "byte list \<Rightarrow> string" where
  "hexlify bs = concat (map (\<lambda>b. [hexchar (unat b div 16), hexchar (unat b mod 16)]) bs)"

text \<open>What the method writes: the arguments of \<open>print\<close>, the template and arguments of a warning.\<close>

datatype effect = Printed "fmtarg list" | Warning string "fmtarg list"

text \<open>
  The names of the scope of \<open>decode_frame\<close> that hold bytes: the parameter \<open>frame\<close> and the
  locals \<open>mtype\<close> (the hexadecimal digits as ASCII bytes) and \<open>body\<close>. Every other name of
  the scope (\<open>self\<close>, \<open>fmt\<close>, \<open>printmsg\<close>, \<open>handler\<close>, \<open>keys\<close>, the module's globals, the
  builtins) holds an object of another kind, under its own name.
\<close>

definition decode_frame_env :: "byte list \<Rightarrow> string \<Rightarrow> byte list \<Rightarrow> (string \<times> byte list) list" where
  "decode_frame_env frame mtype body =
     [(''frame'', frame), (''mtype'', map (\<lambda>c. of_nat (of_char c)) mtype), (''body'', body)]"

text \<open>
  The registry maps the hexadecimal type identifier to a handler; a handler takes bytes and
  returns its (field name, value) pairs or raises. The inner \<open>fmt\<close> ignores its argument
  and renders \<open>frame\<close>. \<open>dict(keys)\<close> keeps the last value of a repeated key.
\<close>

type_synonym 'v handler = "byte list \<Rightarrow> pyerror + (string \<times> 'v) list"

definition decode_frame ::
  "(string \<rightharpoonup> 'v handler) \<Rightarrow> byte list \<Rightarrow> effect list \<times> (pyerror + (string \<rightharpoonup> 'v) option)" where
  "decode_frame handlers frame =
     (if length frame < 4
      then ([], Inl (DataError ''short message <4 bytes: %s'' [S (hexlify frame)]))
      else
        (let mtype = hexlify (take 3 frame);
             body = drop 3 frame;
             out = [Printed [S (hexlify frame), S (hexlify frame), N (int (length frame)),
                             S (hexlify frame)]]
         in case handlers mtype of
              None \<Rightarrow>
                (out @ [Warning ''No handler for %i byte 0x%s'' [N (int (length frame)), S mtype]],
                 Inr None)
            | Some handler \<Rightarrow>
                (case lookup (decode_frame_env frame mtype body) ''message'' of
                   Inl e \<Rightarrow> (out, Inl e)
                 | Inr message \<Rightarrow>
                     (case handler message of
                        Inl e \<Rightarrow> (out, Inl e)
                      | Inr keys \<Rightarrow>
                          if 0 < length keys then (out, Inr (Some (map_of (rev keys))))
                          else (out, Inl AssertionError)))))"

subsection \<open>lineprotocol\<close>

text \<open>
  The byte source: \<open>reader n\<close> takes up to \<open>n\<close> bytes from the source and leaves the rest.
  \<open>list_reader\<close> reads a stream held as a list.
\<close>

type_synonym 'src reader = "nat \<Rightarrow> 'src \<Rightarrow> byte list \<times> 'src"

definition list_reader :: "(byte list) reader" where
  "list_reader n src = (take n src, drop n src)"

text \<open>The two yield statements: the junk text, and the pair of \<open>"frame"\<close> and the frame bytes.\<close>

datatype item = Junk "byte list" | Frame "byte list"

text \<open>
  The result of the first \<open>next()\<close> on the generator: what it printed, and the item it
  yields or the exception that ends it. A generator that raised yields nothing afterwards.
\<close>

datatype step = Yielded item | Raised pyerror

text \<open>
  The names of the scope of \<open>lineprotocol\<close> that hold a table of (header, length) pairs:
  none. Its locals are \<open>self\<close>, \<open>reader\<close>, \<open>buf\<close>, \<open>frameidx\<close>, \<open>framelen\<close>, \<open>framehdr\<close>
  and \<open>startidx\<close>; the module binds its imports, functions and classes; the tables are the
  class attributes above.
\<close>

definition lineprotocol_env :: "(string \<times> (int \<times> int) list) list" where
  "lineprotocol_env = []"

text \<open>
  The generator body up to its first yield or exception, under Python 3. The iterable of
  the for statement is the free name \<open>headers\<close>. With a table in hand, the first statement
  of the loop body adds the integer \<open>framehdr\<close> to a string, a TypeError; on an empty table
  the loop leaves \<open>frameidx = False\<close> and \<open>framelen = 0\<close>, \<open>False is not None\<close> holds,
  \<open>buf[0]\<close> is asserted to be the sentinel, \<open>False > 1\<close> fails, and the frame yielded is
  \<open>buf[1:0]\<close>.
\<close>

definition lineprotocol :: "'src reader \<Rightarrow> 'src \<Rightarrow> fmtarg list list \<times> step" where
  "lineprotocol reader src =
     (let buf = [] @ fst (reader 100 src);
          out = [[S ''buf is: %s'', S (hexlify buf)]]
      in case lookup lineprotocol_env ''headers'' of
           Inl e \<Rightarrow> (out, Raised e)
         | Inr headers \<Rightarrow>
             (case headers of
                (framehdr, framelen) # _ \<Rightarrow> (out, Raised TypeError)
              | [] \<Rightarrow>
                  (case buf of
                     [] \<Rightarrow> (out, Raised IndexError)
                   | b # _ \<Rightarrow>
                       if b \<noteq> 0x81 then (out, Raised AssertionError)
                       else (out, Yielded (Frame (drop 1 (take 0 buf)))))))"

section \<open>Properties\<close>

subsection \<open>checklength\<close>

lemma hexval_lt16: "hexval c = Some v \<Longrightarrow> v < 16"
  by (auto simp: hexval_def Let_def split: if_splits)

lemma rev_upt8: "rev [0..<8] = [7,6,5,4,3,2,1,0::nat]"
  by (simp add: upt_rec)

lemma rev_upt4: "rev [0..<4] = [3,2,1,0::nat]"
  by (simp add: upt_rec)

lemma bits8_split:
  assumes "h < 16" "l < 16"
  shows "bits_of_nat 8 (16 * h + l) = bits_of_nat 4 h @ bits_of_nat 4 l"
proof -
  have a: "(16 * h + l) div 128 = h div 8" "(16 * h + l) div 64 = h div 4"
    "(16 * h + l) div 32 = h div 2" "(16 * h + l) div 16 = h"
    using assms(2) by simp_all
  have b: "(16 * h + l) div 8 = 2 * h + l div 8" "(16 * h + l) div 4 = 4 * h + l div 4"
    "(16 * h + l) div 2 = 8 * h + l div 2"
    by simp_all
  show ?thesis
    unfolding bits_of_nat_def rev_upt8 rev_upt4 using a b by simp
qed

lemma byte_bits_hex:
  assumes h: "h < 16" and l: "l < 16"
  shows "byte_bits (of_nat (16 * h + l)) = bits_of_nat 4 h @ bits_of_nat 4 l"
proof -
  have "unat (of_nat (16 * h + l) :: byte) = (16 * h + l) mod 2 ^ LENGTH(8)"
    by (rule unat_of_nat)
  also have "\<dots> = 16 * h + l"
    using h l by simp
  finally show ?thesis
    using bits8_split[OF h l] by (simp only: byte_bits_def)
qed

lemma byte_bits_hex':
  "h < 16 \<Longrightarrow> l < 16 \<Longrightarrow>
   byte_bits (16 * of_nat h + of_nat l) = bits_of_nat 4 h @ bits_of_nat 4 l"
  using byte_bits_hex[of h l] by simp

lemma unhexlify_hex_bits:
  "unhexlify s = Some bs \<Longrightarrow> hex_bits s = Some (concat (map byte_bits bs))"
proof (induction s arbitrary: bs rule: unhexlify.induct)
  case 1
  then show ?case by simp
next
  case (2 c)
  then show ?case by simp
next
  case (3 c d cs)
  then show ?case
    by (auto split: option.splits simp: byte_bits_hex' hexval_lt16)
qed

lemma unhexlify_total:
  "hexstr s \<Longrightarrow> even (length s) \<Longrightarrow> \<exists>bs. unhexlify s = Some bs"
proof (induction s rule: unhexlify.induct)
  case 1
  then show ?case by simp
next
  case (2 c)
  then show ?case by simp
next
  case (3 c d cs)
  then show ?case
    by (auto simp: hexstr_def is_hexdigit_def split: option.splits)
qed

lemma unhexlify_length: "unhexlify s = Some bs \<Longrightarrow> length s = 2 * length bs"
  by (induction s arbitrary: bs rule: unhexlify.induct) (auto split: option.splits)

lemma unhexlify_drop:
  "unhexlify s = Some bs \<Longrightarrow> unhexlify (drop (2 * k) s) = Some (drop k bs)"
proof (induction k arbitrary: s bs)
  case 0
  then show ?case by simp
next
  case (Suc k)
  show ?case
  proof (cases s rule: unhexlify.cases)
    case 1
    with Suc.prems show ?thesis by simp
  next
    case (2 c)
    with Suc.prems show ?thesis by simp
  next
    case (3 c d cs)
    with Suc.prems obtain b bs' where bs: "bs = b # bs'" and cs: "unhexlify cs = Some bs'"
      by (auto split: option.splits)
    from Suc.IH[OF cs] show ?thesis using 3 bs by simp
  qed
qed

lemma unhexlify_take:
  "unhexlify s = Some bs \<Longrightarrow> unhexlify (take (2 * k) s) = Some (take k bs)"
proof (induction k arbitrary: s bs)
  case 0
  then show ?case by simp
next
  case (Suc k)
  show ?case
  proof (cases s rule: unhexlify.cases)
    case 1
    with Suc.prems show ?thesis by simp
  next
    case (2 c)
    with Suc.prems show ?thesis by simp
  next
    case (3 c d cs)
    with Suc.prems obtain b bs' where bs: "bs = b # bs'" and cs: "unhexlify cs = Some bs'"
      and hd: "unhexlify (c # d # cs) = Some (b # bs')"
      by (auto split: option.splits)
    from Suc.IH[OF cs] show ?thesis using 3 bs hd by (auto split: option.splits)
  qed
qed

lemma body_slice:
  assumes "unhexlify pdu = Some bs"
  shows "BitArray_hex (drop 6 (take (length pdu - 2) pdu)) =
           Inr (concat (map byte_bits (butlast (drop 3 bs))))"
proof -
  have len: "length pdu = 2 * length bs" using assms by (rule unhexlify_length)
  then have "length pdu - 2 = 2 * (length bs - 1)" by simp
  then have "unhexlify (take (length pdu - 2) pdu) = Some (take (length bs - 1) bs)"
    using unhexlify_take[OF assms] by simp
  then have "unhexlify (drop (2 * 3) (take (length pdu - 2) pdu)) = Some (drop 3 (take (length bs - 1) bs))"
    by (rule unhexlify_drop)
  then have "hex_bits (drop 6 (take (length pdu - 2) pdu)) = Some (concat (map byte_bits (drop 3 (butlast bs))))"
    using unhexlify_hex_bits by (simp add: butlast_conv_take)
  then show ?thesis by (simp add: BitArray_hex_def butlast_drop)
qed

text \<open>
  C10. For every even-length string of hexadecimal digits, \<open>checklength(pdu, None)\<close> checks
  no length and raises nothing: it returns the bits of the decoded bytes without the first
  three and the last one, whatever the length of the string.
\<close>

theorem checklength_None:
  assumes "hexstr pdu" and "even (length pdu)"
  shows "\<exists>bs. unhexlify pdu = Some bs \<and>
              checklength pdu None = Inr (concat (map byte_bits (butlast (drop 3 bs))))"
proof -
  obtain bs where bs: "unhexlify pdu = Some bs"
    using unhexlify_total[OF assms] by blast
  have "checklength pdu None = Inr (concat (map byte_bits (butlast (drop 3 bs))))"
    using assms(2) body_slice[OF bs] by (simp add: checklength_def)
  with bs show ?thesis by blast
qed

theorem checklength_None_witness:
  "hexstr ''0104020a0b81'' \<and> even (length ''0104020a0b81'') \<and>
   checklength ''0104020a0b81'' None = Inr (concat (map byte_bits [0x0a, 0x0b]))"
proof -
  have h: "hexstr ''0104020a0b81''"
    by code_simp
  have e: "even (length ''0104020a0b81'')" by simp
  have u: "unhexlify ''0104020a0b81'' = Some [1, 4, 2, 0x0a, 0x0b, 0x81]"
    by code_simp
  from checklength_None[OF h e] u show ?thesis using h e by auto
qed

text \<open>
  C2, as the code has it. For every even-length string of hexadecimal digits and every
  integer \<open>speclen\<close>, \<open>checklength\<close> raises DataError exactly when the number of decoded
  bytes of the whole pdu, header and sentinel included, differs from \<open>speclen\<close>; the
  message carries the first six characters (the type), \<open>speclen\<close>, that number of bytes and
  the rest of the pdu. When the two agree it returns the bits of the body, without the
  three header bytes and the sentinel byte.
\<close>

theorem checklength_Some:
  assumes "hexstr pdu" and "even (length pdu)"
  shows "\<exists>bs. unhexlify pdu = Some bs \<and>
           checklength pdu (Some speclen) =
             (if int (length bs) \<noteq> speclen
              then Inl (DataError length_template
                          [S (take 6 pdu), N speclen, N (int (length bs)), S (drop 6 pdu)])
              else Inr (concat (map byte_bits (butlast (drop 3 bs)))))"
proof -
  obtain bs where bs: "unhexlify pdu = Some bs"
    using unhexlify_total[OF assms] by blast
  have len: "length pdu div 2 = length bs"
    using unhexlify_length[OF bs] by simp
  have "checklength pdu (Some speclen) =
             (if int (length bs) \<noteq> speclen
              then Inl (DataError length_template
                          [S (take 6 pdu), N speclen, N (int (length bs)), S (drop 6 pdu)])
              else Inr (concat (map byte_bits (butlast (drop 3 bs)))))"
    using assms(2) body_slice[OF bs] len by (simp add: checklength_def)
  with bs show ?thesis by blast
qed

theorem checklength_Some_witness:
  "hexstr ''0104020a0b81'' \<and> even (length ''0104020a0b81'') \<and>
   checklength ''0104020a0b81'' (Some 6) = Inr (concat (map byte_bits [0x0a, 0x0b])) \<and>
   checklength ''0104020a0b81'' (Some 2) =
     Inl (DataError length_template [S ''010402'', N 2, N 6, S ''0a0b81''])"
proof -
  have h: "hexstr ''0104020a0b81''"
    by code_simp
  have e: "even (length ''0104020a0b81'')" by simp
  have u: "unhexlify ''0104020a0b81'' = Some [1, 4, 2, 0x0a, 0x0b, 0x81]"
    by code_simp
  from checklength_Some[OF h e, of 6] checklength_Some[OF h e, of 2] u
  show ?thesis using h e by auto
qed

text \<open>
  C2, as the claim states it, fails: a pdu of six bytes has a body of two bytes, and yet
  \<open>speclen = 2\<close> raises DataError and \<open>speclen = 6\<close> does not.
\<close>

theorem checklength_body_length_counterexample:
  "\<not> (is_DataError (checklength ''0104020a0b81'' (Some 2)) \<longleftrightarrow>
        int (length ''0104020a0b81'' div 2) - 4 \<noteq> 2) \<and>
   \<not> (is_DataError (checklength ''0104020a0b81'' (Some 6)) \<longleftrightarrow>
        int (length ''0104020a0b81'' div 2) - 4 \<noteq> 6)"
  by code_simp

subsection \<open>intdecoder\<close>

lemma py_range_rec:
  assumes "0 < w" "0 < n"
  shows "(n + w - 1) div w = Suc ((n - w + w - 1) div w)"
proof -
  have "n + w - 1 = (n - 1) + w" using assms by simp
  then have l: "(n + w - 1) div w = Suc ((n - 1) div w)"
    using assms(1) by (simp only: div_add_self2)
  show ?thesis
  proof (cases "n \<le> w")
    case True
    then have "(n - 1) div w = 0" "(n - w + w - 1) div w = 0" using assms by simp_all
    with l show ?thesis by simp
  next
    case False
    then have "n - w + w - 1 = n - 1" by simp
    with l show ?thesis by simp
  qed
qed

lemma windows_rec:
  assumes "0 < w"
  shows "windows w body = (if body = [] then [] else take w body # windows w (drop w body))"
proof (cases "body = []")
  case True
  then show ?thesis using assms by (simp add: windows_def py_range_def)
next
  case False
  then have n: "0 < length body" by simp
  have "windows w body =
          map (\<lambda>k. take w (drop (k * w) body)) [0..<Suc ((length body - w + w - 1) div w)]"
    using py_range_rec[OF assms n] by (simp add: windows_def py_range_def comp_def)
  also have "\<dots> = take w body # map (\<lambda>k. take w (drop (Suc k * w) body)) [0..<(length body - w + w - 1) div w]"
    by (simp only: map_upt_Suc) simp
  also have "map (\<lambda>k. take w (drop (Suc k * w) body)) [0..<(length body - w + w - 1) div w] =
             windows w (drop w body)"
    by (simp add: windows_def py_range_def comp_def add.commute)
  finally show ?thesis using False by simp
qed

lemma concat_windows: "0 < w \<Longrightarrow> concat (windows w body) = body"
proof (induction body rule: length_induct)
  case (1 xs)
  show ?case
  proof (cases "xs = []")
    case True
    then show ?thesis using windows_rec[OF 1(2), of xs] by simp
  next
    case False
    then have "length (drop w xs) < length xs" using 1(2) by simp
    then have "concat (windows w (drop w xs)) = drop w xs" using 1 by blast
    then show ?thesis using windows_rec[OF 1(2), of xs] False by simp
  qed
qed

lemma windows_lengths:
  "0 < w \<Longrightarrow> list_all (\<lambda>v. v \<noteq> [] \<and> length v \<le> w) (windows w body)"
proof (induction body rule: length_induct)
  case (1 xs)
  show ?case
  proof (cases "xs = []")
    case True
    then show ?thesis using windows_rec[OF 1(2), of xs] by simp
  next
    case False
    then have "length (drop w xs) < length xs" using 1(2) by simp
    then have "list_all (\<lambda>v. v \<noteq> [] \<and> length v \<le> w) (windows w (drop w xs))" using 1 by blast
    then show ?thesis using windows_rec[OF 1(2), of xs] False 1(2) by simp
  qed
qed

lemma windows_full:
  "0 < w \<Longrightarrow> list_all (\<lambda>v. length v = w) (butlast (windows w body))"
proof (induction body rule: length_induct)
  case (1 xs)
  show ?case
  proof (cases "xs = []")
    case True
    then show ?thesis using windows_rec[OF 1(2), of xs] by simp
  next
    case False
    then have "length (drop w xs) < length xs" using 1(2) by simp
    then have ih: "list_all (\<lambda>v. length v = w) (butlast (windows w (drop w xs)))" using 1 by blast
    show ?thesis
    proof (cases "drop w xs = []")
      case True
      then have "windows w xs = [take w xs]"
        using windows_rec[OF 1(2), of xs] windows_rec[OF 1(2), of "drop w xs"] False by simp
      then show ?thesis by simp
    next
      case d: False
      then have "windows w (drop w xs) \<noteq> []"
        using windows_rec[OF 1(2), of "drop w xs"] by simp
      moreover have "length (take w xs) = w" using d by simp
      ultimately show ?thesis using windows_rec[OF 1(2), of xs] False ih by simp
    qed
  qed
qed

lemma windows_whole_bytes:
  "0 < w \<Longrightarrow> w mod 8 = 0 \<Longrightarrow> length body mod 8 = 0 \<Longrightarrow>
   list_all (\<lambda>v. v \<noteq> [] \<and> length v mod 8 = 0) (windows w body)"
proof (induction body rule: length_induct)
  case (1 xs)
  show ?case
  proof (cases "xs = []")
    case True
    then show ?thesis using windows_rec[OF 1(2), of xs] by simp
  next
    case False
    have m: "min (length xs) w mod 8 = 0" using 1(3,4) by (simp add: min_def)
    have lt: "length (drop w xs) < length xs" using False 1(2) by simp
    have dm: "length (drop w xs) mod 8 = 0"
    proof -
      have "8 dvd length xs" "8 dvd w" using 1(3,4) by (simp_all add: mod_eq_0_iff_dvd)
      then have "8 dvd length xs - w" by (rule dvd_diff_nat)
      then show ?thesis by (simp add: mod_eq_0_iff_dvd)
    qed
    have "list_all (\<lambda>v. v \<noteq> [] \<and> length v mod 8 = 0) (windows w (drop w xs))"
      using "1.IH"[rule_format, OF lt "1.prems"(1,2) dm] .
    then show ?thesis using windows_rec[OF 1(2), of xs] False 1(2) m by simp
  qed
qed

lemma concat_whole_bytes:
  "list_all (\<lambda>v. length v mod 8 = 0) vs \<Longrightarrow> length (concat vs) mod 8 = 0"
  by (induction vs) (auto simp: mod_eq_0_iff_dvd)

lemma windows_ragged:
  assumes "0 < w" "length body mod 8 \<noteq> 0"
  shows "\<not> list_all (\<lambda>v. v \<noteq> [] \<and> length v mod 8 = 0) (windows w body)"
proof
  assume "list_all (\<lambda>v. v \<noteq> [] \<and> length v mod 8 = 0) (windows w body)"
  then have "list_all (\<lambda>v. length v mod 8 = 0) (windows w body)"
    by (simp add: list_all_iff)
  then have "length (concat (windows w body)) mod 8 = 0" by (rule concat_whole_bytes)
  then show False using assms concat_windows[OF assms(1), of body] by simp
qed

lemma decode_windows_ok:
  "list_all (\<lambda>v. v \<noteq> [] \<and> length v mod 8 = 0) vs \<Longrightarrow>
   decode_windows fw sg vs =
     Inr (map (\<lambda>v. fmt_0i fw (if sg then intle_value v else uintle_value v)) vs)"
  by (cases sg; induction vs) (simp_all add: uintle_def intle_def)

lemma decode_windows_bad:
  "\<not> list_all (\<lambda>v. v \<noteq> [] \<and> length v mod 8 = 0) vs \<Longrightarrow>
   decode_windows fw sg vs = Inl InterpretError"
  by (cases sg; induction vs) (auto simp: uintle_def intle_def split: sum.splits)

lemma uintle_value_8: "length v = 8 \<Longrightarrow> uintle_value v = int (nat_of_bits v)"
  by (simp add: uintle_value_def bytes_of_bits_def)

lemma uintle_value_16:
  "length v = 16 \<Longrightarrow>
   uintle_value v = int (nat_of_bits (take 8 v)) + 256 * int (nat_of_bits (drop 8 v))"
  by (simp add: uintle_value_def bytes_of_bits_def upt_rec)

text \<open>
  C8, as the code has it. Whatever the body, a width other than 8 and 16 fails the
  assertions. With a width of 8 or 16, a body of whole bytes is decoded: the windows are
  cut one after the other from the start of the body, each of the width given, the last
  one shorter when the body ends before it is full, and they make up the body; each is
  read least significant byte first and printed on 3 or 5 digits. A body that is not a
  whole number of bytes raises the library's InterpretError.
\<close>

theorem intdecoder_windows:
  "intdecoder body width sg =
     (if width \<noteq> 8 \<and> width \<noteq> 16 then Inl AssertionError
      else if length body mod 8 \<noteq> 0 then Inl InterpretError
      else Inr [(''ints'',
                 join [CHR '' '']
                   (map (\<lambda>v. fmt_0i (if width = 16 then 5 else 3)
                                (if sg then intle_value v else uintle_value v))
                        (windows (nat width) body))),
                (''strbody'', hex_digits body)]) \<and>
   (width = 8 \<or> width = 16 \<longrightarrow>
      concat (windows (nat width) body) = body \<and>
      list_all (\<lambda>v. length v = nat width) (butlast (windows (nat width) body)) \<and>
      list_all (\<lambda>v. v \<noteq> [] \<and> length v \<le> nat width) (windows (nat width) body))"
proof (intro conjI impI)
  show "intdecoder body width sg =
     (if width \<noteq> 8 \<and> width \<noteq> 16 then Inl AssertionError
      else if length body mod 8 \<noteq> 0 then Inl InterpretError
      else Inr [(''ints'',
                 join [CHR '' '']
                   (map (\<lambda>v. fmt_0i (if width = 16 then 5 else 3)
                                (if sg then intle_value v else uintle_value v))
                        (windows (nat width) body))),
                (''strbody'', hex_digits body)])"
  proof (cases "width = 8 \<or> width = 16")
    case False
    then show ?thesis by (simp add: intdecoder_def)
  next
    case True
    then have w: "0 < nat width" "nat width mod 8 = 0" "width mod 8 = 0" by auto
    show ?thesis
    proof (cases "length body mod 8 = 0")
      case False
      then have "decode_windows (if width = 16 then 5 else 3) sg (windows (nat width) body) =
                   Inl InterpretError"
        using windows_ragged[OF w(1)] decode_windows_bad by blast
      then show ?thesis using True False w(3) by (simp add: intdecoder_def Let_def)
    next
      case aligned: True
      then have "length body mod 4 = 0"
        using mod_mod_cancel[of 4 8 "length body"] by simp
      then have h: "BitArray_to_hex body = Inr (hex_digits body)"
        by (simp add: BitArray_to_hex_def)
      have "decode_windows (if width = 16 then 5 else 3) sg (windows (nat width) body) =
              Inr (map (\<lambda>v. fmt_0i (if width = 16 then 5 else 3)
                                (if sg then intle_value v else uintle_value v))
                        (windows (nat width) body))"
        using windows_whole_bytes[OF w(1,2) aligned] by (rule decode_windows_ok)
      then show ?thesis using True aligned w(3) h by (simp add: intdecoder_def Let_def)
    qed
  qed
next
  assume "width = 8 \<or> width = 16"
  then have w: "0 < nat width" by auto
  show "concat (windows (nat width) body) = body" using w by (rule concat_windows)
  show "list_all (\<lambda>v. length v = nat width) (butlast (windows (nat width) body))"
    using w by (rule windows_full)
  show "list_all (\<lambda>v. v \<noteq> [] \<and> length v \<le> nat width) (windows (nat width) body)"
    using w by (rule windows_lengths)
qed

theorem intdecoder_windows_witness:
  "((16::int) = 8 \<or> (16::int) = 16) \<and>
   intdecoder (concat (map byte_bits [0x01, 0x02, 0xff])) 16 False =
     Inr [(''ints'', ''00513 00255''), (''strbody'', ''0102ff'')] \<and>
   intdecoder (concat (map byte_bits [0x01, 0x02, 0xff])) 8 True =
     Inr [(''ints'', ''001 002 -01''), (''strbody'', ''0102ff'')] \<and>
   intdecoder (concat (map byte_bits [0x01, 0x02, 0xff])) 24 False = Inl AssertionError \<and>
   windows (nat 16) (concat (map byte_bits [0x01, 0x02, 0xff])) =
     [byte_bits 0x01 @ byte_bits 0x02, byte_bits 0xff] \<and>
   concat (windows (nat 16) (concat (map byte_bits [0x01, 0x02, 0xff]))) =
     concat (map byte_bits [0x01, 0x02, 0xff])"
proof -
  have a: "intdecoder (concat (map byte_bits [0x01, 0x02, 0xff])) 16 False =
     Inr [(''ints'', ''00513 00255''), (''strbody'', ''0102ff'')]"
    by code_simp
  have b: "intdecoder (concat (map byte_bits [0x01, 0x02, 0xff])) 8 True =
     Inr [(''ints'', ''001 002 -01''), (''strbody'', ''0102ff'')]"
    by code_simp
  have c: "intdecoder (concat (map byte_bits [0x01, 0x02, 0xff])) 24 False = Inl AssertionError"
    by code_simp
  have d: "windows (nat 16) (concat (map byte_bits [0x01, 0x02, 0xff])) =
     [byte_bits 0x01 @ byte_bits 0x02, byte_bits 0xff]"
    by code_simp
  from intdecoder_windows[of "concat (map byte_bits [0x01, 0x02, 0xff])" 16 False]
  have "concat (windows (nat 16) (concat (map byte_bits [0x01, 0x02, 0xff]))) =
     concat (map byte_bits [0x01, 0x02, 0xff])"
    by simp
  with a b c d show ?thesis by simp
qed

text \<open>
  C8, as the claim states it, fails: the width is 8 and the body has four bits, and the
  call raises InterpretError instead of succeeding.
\<close>

theorem intdecoder_half_byte_counterexample:
  "intdecoder [True, False, True, False] 8 False = Inl InterpretError"
  by code_simp

subsection \<open>decode_frame\<close>

text \<open>
  C3. A frame of fewer than four bytes makes \<open>decode_frame\<close> raise DataError with the
  short-message text and the frame in hexadecimal; nothing is printed, no field is decoded,
  and the registry plays no role.
\<close>

theorem decode_frame_short:
  "length frame < 4 \<Longrightarrow>
   decode_frame handlers frame =
     ([], Inl (DataError ''short message <4 bytes: %s'' [S (hexlify frame)]))"
  by (simp add: decode_frame_def)

theorem decode_frame_short_witness:
  "length [0x81 :: byte, 0x81] < 4 \<and>
   decode_frame (FDXProcess_handlers :: string \<rightharpoonup> nat handler) [0x81, 0x81] =
     ([], Inl (DataError ''short message <4 bytes: %s'' [S ''8181'']))"
  using decode_frame_short[of "[0x81, 0x81]" "FDXProcess_handlers :: string \<rightharpoonup> nat handler"]
  by (simp add: hexlify_def hexchar_def)

text \<open>
  C5. A frame of at least four bytes whose type identifier has no handler in the registry
  raises nothing: \<open>decode_frame\<close> logs the warning with the frame length and the type, and
  returns None.
\<close>

theorem decode_frame_no_handler:
  "4 \<le> length frame \<Longrightarrow> handlers (hexlify (take 3 frame)) = None \<Longrightarrow>
   decode_frame handlers frame =
     ([Printed [S (hexlify frame), S (hexlify frame), N (int (length frame)), S (hexlify frame)],
       Warning ''No handler for %i byte 0x%s''
         [N (int (length frame)), S (hexlify (take 3 frame))]],
      Inr None)"
  by (simp add: decode_frame_def Let_def)

theorem decode_frame_no_handler_witness:
  "4 \<le> length [0x21 :: byte, 0x04, 0x25, 0xff, 0x81] \<and>
   (FDXProcess_handlers :: string \<rightharpoonup> nat handler) (hexlify (take 3 [0x21, 0x04, 0x25, 0xff, 0x81])) = None \<and>
   decode_frame (FDXProcess_handlers :: string \<rightharpoonup> nat handler) [0x21, 0x04, 0x25, 0xff, 0x81] =
     ([Printed [S ''210425ff81'', S ''210425ff81'', N 5, S ''210425ff81''],
       Warning ''No handler for %i byte 0x%s'' [N 5, S ''210425'']],
      Inr None)"
  using decode_frame_no_handler[of "[0x21, 0x04, 0x25, 0xff, 0x81]"
          "FDXProcess_handlers :: string \<rightharpoonup> nat handler"]
  by (simp add: hexlify_def hexchar_def FDXProcess_handlers_def)

lemma lookup_message: "lookup (decode_frame_env frame mtype body) ''message'' = Inl (NameError ''message'')"
  by (simp add: lookup_def decode_frame_env_def)

lemma decode_frame_handler_found:
  "4 \<le> length frame \<Longrightarrow> handlers (hexlify (take 3 frame)) = Some h \<Longrightarrow>
   snd (decode_frame handlers frame) = Inl (NameError ''message'')"
  by (simp add: decode_frame_def Let_def lookup_message)

lemma decode_frame_never_decodes: "snd (decode_frame handlers frame) \<noteq> Inr (Some d)"
  by (simp add: decode_frame_def Let_def lookup_message split: option.splits)

lemma hexlify_gps_frame:
  "hexlify [0x20, 0x08, 0x28, 0x00, 0x00, 0x00, 0x00, 0x00, 0x00, 0x10, 0x00, 0x10, 0x81] =
     ''20082800000000000010001081''"
  "hexlify (take 3 [0x20, 0x08, 0x28, 0x00, 0x00, 0x00, 0x00, 0x00, 0x00, 0x10, 0x00, 0x10, 0x81]) =
     ''200828''"
  by code_simp+

text \<open>
  C4. The claim asks that a registered handler is called with the body and that its pairs
  come back as a dictionary. On the GPS position frame of the test suite, with a handler
  registered for its type, \<open>decode_frame\<close> prints the frame and raises NameError on the
  free name \<open>message\<close>: the handler is never called.
\<close>

theorem decode_frame_handler_NameError:
  "decode_frame [''200828'' \<mapsto> (\<lambda>body. Inr [(''mdesc'', ''gpspos'')])]
     [0x20, 0x08, 0x28, 0x00, 0x00, 0x00, 0x00, 0x00, 0x00, 0x10, 0x00, 0x10, 0x81] =
   ([Printed [S ''20082800000000000010001081'', S ''20082800000000000010001081'', N 13,
              S ''20082800000000000010001081'']],
    Inl (NameError ''message''))"
  unfolding decode_frame_def Let_def hexlify_gps_frame
  by (simp add: lookup_message)

text \<open>
  C9. The claim asks for a decoded message with \<open>mdesc = "gpspos"\<close> and both coordinates
  not-a-number. On the no-fix frame of the test suite \<open>decode_frame\<close> returns None when the
  registry has no handler for the type 200828, as the registry of the class has none, and
  raises NameError when it has one: no registry makes it return a decoded message.
\<close>

theorem decode_frame_gps_position:
  "snd (decode_frame handlers
          [0x20, 0x08, 0x28, 0x00, 0x00, 0x00, 0x00, 0x00, 0x00, 0x10, 0x00, 0x10, 0x81]) =
     (case handlers ''200828'' of None \<Rightarrow> Inr None | Some h \<Rightarrow> Inl (NameError ''message''))"
  unfolding decode_frame_def Let_def hexlify_gps_frame
  by (simp add: lookup_message split: option.splits)

subsection \<open>lineprotocol\<close>

lemma lineprotocol_raises: "snd (lineprotocol reader src) = Raised (NameError ''headers'')"
  by (simp add: lineprotocol_def lookup_def lineprotocol_env_def Let_def)

text \<open>
  C1. The claim asks that the junk spans and frames yielded, sentinels put back, make up the
  input. On a stream that is one whole frame the generator prints the buffer and raises
  NameError on the free name \<open>headers\<close> at its first step: it yields nothing, and the
  eleven bytes read are not given back.
\<close>

theorem lineprotocol_whole_frame:
  "lineprotocol list_reader
     [0x81, 0x01, 0x04, 0x02, 0x11, 0x22, 0x33, 0x44, 0x55, 0x66, 0x81] =
   ([[S ''buf is: %s'', S ''8101040211223344556681'']], Raised (NameError ''headers''))"
  by code_simp

text \<open>
  C6. The claim asks for the bytes before a matched frame as one junk span, then the frame.
  On two junk bytes followed by a whole frame the generator raises NameError at its first
  step and yields neither.
\<close>

theorem lineprotocol_junk_then_frame:
  "lineprotocol list_reader
     [0xaa, 0xbb, 0x81, 0x01, 0x04, 0x02, 0x11, 0x22, 0x33, 0x44, 0x55, 0x66, 0x81] =
   ([[S ''buf is: %s'', S ''aabb8101040211223344556681'']], Raised (NameError ''headers''))"
  by code_simp

text \<open>
  C7. The claim asks that a header match without its closing sentinel raises no error and
  that the scan goes on. On a header followed by six bytes and a zero byte, then a whole
  frame, the generator raises NameError at its first step: the later frame is never reached.
\<close>

theorem lineprotocol_false_header:
  "lineprotocol list_reader
     [0x81, 0x01, 0x04, 0x02, 0x11, 0x22, 0x33, 0x44, 0x55, 0x66, 0x00,
      0x81, 0x01, 0x04, 0x02, 0x11, 0x22, 0x33, 0x44, 0x55, 0x66, 0x81] =
   ([[S ''buf is: %s'', S ''81010402112233445566008101040211223344556681'']],
    Raised (NameError ''headers''))"
  by code_simp

end
